theory Spec2Isabelle
  imports Complex_Main "HOL-Library.Multiset"
begin

section \<open>Data model of \<open>gtfs_kit/feed.py\<close>\<close>

text \<open>
  A cell of a pandas DataFrame: a missing value, an integer, a float or a text.
  Every finite double is a rational number, so a float cell carries the rational it denotes.
\<close>

datatype cell = NaN | IntC int | FloatC rat | StrC string

text \<open>
  A DataFrame: row labels, column names, and the rows (each row has one cell per column).
\<close>

record dataframe =
  df_index :: "cell list"
  df_columns :: "string list"
  df_rows :: "cell list list"

text \<open>\<open>DataFrame.empty\<close>: some axis has length zero.\<close>

definition empty_df :: "dataframe \<Rightarrow> bool" where
  "empty_df d = (df_columns d = [] \<or> df_rows d = [])"

text \<open>The exceptions that the modelled code and the library calls it makes can raise.\<close>

datatype error =
    ValueError string
  | KeyError string
  | AttributeError string
  | ParserError string
  | ReadError string
  | TransportError string
  | OSError string

text \<open>
  Python objects live in a heap and attributes hold references. A reference is the position
  of the object in the heap; a new object is appended, so it never aliases an older one.
  A groupby object keeps a reference to the frame it groups, and the grouping keys.
\<close>

type_synonym ref = nat

datatype obj = DataFrame dataframe | DataFrameGroupBy ref "string list"

type_synonym heap = "obj list"

definition alloc :: "obj \<Rightarrow> heap \<Rightarrow> ref \<times> heap" where
  "alloc ob h = (length h, h @ [ob])"

definition df_at :: "heap \<Rightarrow> ref \<Rightarrow> dataframe option" where
  "df_at h r = (if r < length h then (case h ! r of DataFrame d \<Rightarrow> Some d | _ \<Rightarrow> None) else None)"

text \<open>The thirteen table attributes, in the order of the parameters of \<open>Feed.__init__\<close>.\<close>

datatype table =
    agency | stops | routes | trips | stop_times | calendar | calendar_dates
  | fare_attributes | fare_rules | shapes | frequencies | transfers | feed_info

definition init_tables :: "table list" where
  "init_tables = [agency, stops, routes, trips, stop_times, calendar, calendar_dates,
     fare_attributes, fare_rules, shapes, frequencies, transfers, feed_info]"

fun table_name :: "table \<Rightarrow> string" where
  "table_name agency = ''agency''"
| "table_name stops = ''stops''"
| "table_name routes = ''routes''"
| "table_name trips = ''trips''"
| "table_name stop_times = ''stop_times''"
| "table_name calendar = ''calendar''"
| "table_name calendar_dates = ''calendar_dates''"
| "table_name fare_attributes = ''fare_attributes''"
| "table_name fare_rules = ''fare_rules''"
| "table_name shapes = ''shapes''"
| "table_name frequencies = ''frequencies''"
| "table_name transfers = ''transfers''"
| "table_name feed_info = ''feed_info''"

text \<open>
  A Feed object. \<open>tbl\<close> is the attribute dictionary of the table attributes (for
  \<open>trips\<close>, \<open>calendar\<close> and \<open>calendar_dates\<close> it is the private attribute behind the
  property); \<open>None\<close> is Python's \<open>None\<close>. The three derived attributes are
  \<open>_trips_i\<close>, \<open>_calendar_i\<close> and \<open>_calendar_dates_g\<close>.
\<close>

record feed =
  dist_units :: string
  tbl :: "table \<Rightarrow> ref option"
  trips_i :: "ref option"
  calendar_i :: "ref option"
  calendar_dates_g :: "ref option"

text \<open>
  Modelled from the spec: \<open>constants.py\<close> is not among the sources. The registry gives the
  valid distance units (\<open>DIST_UNITS\<close>), the integer-valued columns (\<open>INT_COLS\<close>), the table
  names in their iteration order (\<open>GTFS_REF["table"].unique()\<close>), the primary attributes
  (\<open>FEED_ATTRS_1\<close>: \<open>dist_units\<close> and the tables) and all attributes (\<open>FEED_ATTRS\<close>: the
  primary ones and the three derived ones). It is a parameter of the model.
\<close>

datatype attr1 = DistUnits | Tbl table

datatype attr = Primary attr1 | TripsI | CalendarI | CalendarDatesG

record constants =
  DIST_UNITS :: "string list"
  INT_COLS :: "string list"
  GTFS_TABLES :: "table list"
  FEED_ATTRS_1 :: "attr1 list"
  FEED_ATTRS :: "attr list"

section \<open>Library operations on frames\<close>

text \<open>Position of the first column with the given name.\<close>

fun col_pos :: "string \<Rightarrow> string list \<Rightarrow> nat option" where
  "col_pos k [] = None"
| "col_pos k (c # cs) = (if c = k then Some 0 else map_option Suc (col_pos k cs))"

definition drop_nth :: "nat \<Rightarrow> 'a list \<Rightarrow> 'a list" where
  "drop_nth j xs = take j xs @ drop (Suc j) xs"

definition cell_at :: "nat \<Rightarrow> cell list \<Rightarrow> cell" where
  "cell_at j r = (if j < length r then r ! j else NaN)"

text \<open>
  \<open>DataFrame.set_index(key)\<close>: a new frame whose row labels are the cells of column
  \<open>key\<close> and which no longer has that column; a missing column raises \<open>KeyError\<close>.
\<close>

definition set_index :: "string \<Rightarrow> dataframe \<Rightarrow> error + dataframe" where
  "set_index k d =
     (case col_pos k (df_columns d) of
        None \<Rightarrow> Inl (KeyError k)
      | Some j \<Rightarrow> Inr \<lparr> df_index = map (cell_at j) (df_rows d),
                        df_columns = drop_nth j (df_columns d),
                        df_rows = map (drop_nth j) (df_rows d) \<rparr>)"

text \<open>
  \<open>DataFrame.groupby(keys)\<close>: the first key that is not a column raises \<open>KeyError\<close>;
  otherwise a groupby object over the very same frame object.
\<close>

fun missing_key :: "string list \<Rightarrow> string list \<Rightarrow> string option" where
  "missing_key [] cols = None"
| "missing_key (k # ks) cols = (if k \<in> set cols then missing_key ks cols else Some k)"

definition groupby :: "string list \<Rightarrow> ref \<Rightarrow> dataframe \<Rightarrow> error + obj" where
  "groupby ks r d =
     (case missing_key ks (df_columns d) of
        Some k \<Rightarrow> Inl (KeyError k)
      | None \<Rightarrow> Inr (DataFrameGroupBy r ks))"

section \<open>The Feed class\<close>

text \<open>
  An attribute assignment changes the Feed object and may allocate; when it raises, the
  changes made before the raise stay. So a setter returns the exception, if any, together
  with the Feed and the heap as they are when it finishes.
\<close>

type_synonym fstate = "feed \<times> heap"

text \<open>Python's \<open>repr\<close> of a list of plain strings, as the f-string of the setter prints it.\<close>

definition repr_str :: "string \<Rightarrow> string" where
  "repr_str s = CHR 0x27 # s @ [CHR 0x27]"

fun repr_items :: "string list \<Rightarrow> string" where
  "repr_items [] = []"
| "repr_items [s] = repr_str s"
| "repr_items (s # t) = repr_str s @ '', '' @ repr_items t"

definition repr_list :: "string list \<Rightarrow> string" where
  "repr_list xs = ''['' @ repr_items xs @ '']''"

text \<open>The setter of \<open>dist_units\<close>.\<close>

definition dist_units_error :: "constants \<Rightarrow> error" where
  "dist_units_error cs =
     ValueError (''Distance units are required and must lie in '' @ repr_list (DIST_UNITS cs))"

definition set_dist_units :: "constants \<Rightarrow> string \<Rightarrow> fstate \<Rightarrow> error option \<times> fstate" where
  "set_dist_units cs val s =
     (case s of (f, h) \<Rightarrow>
        if val \<notin> set (DIST_UNITS cs) then (Some (dist_units_error cs), s)
        else (None, (f\<lparr>dist_units := val\<rparr>, h)))"

text \<open>
  The setters of \<open>trips\<close>, \<open>calendar\<close> and \<open>calendar_dates\<close>: the value is stored
  first, then the derived attribute is computed from it.
\<close>

definition set_trips :: "ref option \<Rightarrow> fstate \<Rightarrow> error option \<times> fstate" where
  "set_trips val s =
     (case s of (f, h) \<Rightarrow>
        let f1 = f\<lparr>tbl := (tbl f)(trips := val)\<rparr> in
        case val of
          None \<Rightarrow> (None, (f1\<lparr>trips_i := None\<rparr>, h))
        | Some r \<Rightarrow>
            (case df_at h r of
               None \<Rightarrow> (Some (AttributeError ''empty''), (f1, h))
             | Some d \<Rightarrow>
                 if \<not> empty_df d then
                   (case set_index ''trip_id'' d of
                      Inl e \<Rightarrow> (Some e, (f1, h))
                    | Inr ix \<Rightarrow>
                        (case alloc (DataFrame ix) h of
                           (r', h') \<Rightarrow> (None, (f1\<lparr>trips_i := Some r'\<rparr>, h'))))
                 else (None, (f1\<lparr>trips_i := None\<rparr>, h))))"

definition set_calendar :: "ref option \<Rightarrow> fstate \<Rightarrow> error option \<times> fstate" where
  "set_calendar val s =
     (case s of (f, h) \<Rightarrow>
        let f1 = f\<lparr>tbl := (tbl f)(calendar := val)\<rparr> in
        case val of
          None \<Rightarrow> (None, (f1\<lparr>calendar_i := None\<rparr>, h))
        | Some r \<Rightarrow>
            (case df_at h r of
               None \<Rightarrow> (Some (AttributeError ''empty''), (f1, h))
             | Some d \<Rightarrow>
                 if \<not> empty_df d then
                   (case set_index ''service_id'' d of
                      Inl e \<Rightarrow> (Some e, (f1, h))
                    | Inr ix \<Rightarrow>
                        (case alloc (DataFrame ix) h of
                           (r', h') \<Rightarrow> (None, (f1\<lparr>calendar_i := Some r'\<rparr>, h'))))
                 else (None, (f1\<lparr>calendar_i := None\<rparr>, h))))"

definition set_calendar_dates :: "ref option \<Rightarrow> fstate \<Rightarrow> error option \<times> fstate" where
  "set_calendar_dates val s =
     (case s of (f, h) \<Rightarrow>
        let f1 = f\<lparr>tbl := (tbl f)(calendar_dates := val)\<rparr> in
        case val of
          None \<Rightarrow> (None, (f1\<lparr>calendar_dates_g := None\<rparr>, h))
        | Some r \<Rightarrow>
            (case df_at h r of
               None \<Rightarrow> (Some (AttributeError ''empty''), (f1, h))
             | Some d \<Rightarrow>
                 if \<not> empty_df d then
                   (case groupby [''service_id'', ''date''] r d of
                      Inl e \<Rightarrow> (Some e, (f1, h))
                    | Inr g \<Rightarrow>
                        (case alloc g h of
                           (r', h') \<Rightarrow> (None, (f1\<lparr>calendar_dates_g := Some r'\<rparr>, h'))))
                 else (None, (f1\<lparr>calendar_dates_g := None\<rparr>, h))))"

text \<open>
  \<open>setattr(feed, table, val)\<close>: the three properties go through their setters, any other
  table attribute is stored as it is.
\<close>

definition set_table :: "table \<Rightarrow> ref option \<Rightarrow> fstate \<Rightarrow> error option \<times> fstate" where
  "set_table t val s =
     (if t = trips then set_trips val s
      else if t = calendar then set_calendar val s
      else if t = calendar_dates then set_calendar_dates val s
      else (case s of (f, h) \<Rightarrow> (None, (f\<lparr>tbl := (tbl f)(t := val)\<rparr>, h))))"

text \<open>
  \<open>Feed.__init__\<close>: the loop over \<open>locals()\<close> visits the arguments in the order of the
  parameters, \<open>dist_units\<close> first, and assigns those whose name is in \<open>FEED_ATTRS_1\<close>; the
  first assignment that raises ends the construction and no Feed results. A new object has
  no attribute yet, which \<open>blank\<close> stands for.
\<close>

definition blank :: feed where
  "blank = \<lparr> dist_units = [], tbl = (\<lambda>t. None), trips_i = None, calendar_i = None,
             calendar_dates_g = None \<rparr>"

fun set_tables :: "table list \<Rightarrow> (table \<Rightarrow> ref option) \<Rightarrow> fstate \<Rightarrow> error option \<times> fstate" where
  "set_tables [] args s = (None, s)"
| "set_tables (t # ts) args s =
     (case set_table t (args t) s of
        (Some e, s') \<Rightarrow> (Some e, s')
      | (None, s') \<Rightarrow> set_tables ts args s')"

definition Feed :: "constants \<Rightarrow> string \<Rightarrow> (table \<Rightarrow> ref option) \<Rightarrow> heap \<Rightarrow> (error + feed) \<times> heap" where
  "Feed cs du args h =
     (case (if DistUnits \<in> set (FEED_ATTRS_1 cs) then set_dist_units cs du (blank, h)
            else (None, (blank, h))) of
        (Some e, (f, h')) \<Rightarrow> (Inl e, h')
      | (None, s) \<Rightarrow>
          (case set_tables (filter (\<lambda>t. Tbl t \<in> set (FEED_ATTRS_1 cs)) init_tables) args s of
             (Some e, (f, h')) \<Rightarrow> (Inl e, h')
           | (None, (f, h')) \<Rightarrow> (Inr f, h')))"

subsection \<open>Equality\<close>

text \<open>
  What \<open>getattr\<close> gives for a primary attribute, as \<open>__eq__\<close> looks at it: a string, \<open>None\<close>,
  a frame, or some other object.
\<close>

datatype pyval = PStr string | PNone | PFrame dataframe | PObj ref

definition getattr1 :: "heap \<Rightarrow> feed \<Rightarrow> attr1 \<Rightarrow> pyval" where
  "getattr1 h f k =
     (case k of
        DistUnits \<Rightarrow> PStr (dist_units f)
      | Tbl t \<Rightarrow>
          (case tbl f t of
             None \<Rightarrow> PNone
           | Some r \<Rightarrow> (case df_at h r of Some d \<Rightarrow> PFrame d | None \<Rightarrow> PObj r)))"

text \<open>
  \<open>if x != y\<close> for an \<open>x\<close> that is not a frame. When \<open>y\<close> is a frame, Python falls back to
  \<open>DataFrame.__ne__\<close>, which compares cell by cell and gives a frame of booleans; taking the
  truth value of a frame raises \<open>ValueError\<close>.
\<close>

definition ambiguous :: error where
  "ambiguous = ValueError ''The truth value of a DataFrame is ambiguous.''"

definition py_ne :: "pyval \<Rightarrow> pyval \<Rightarrow> error + bool" where
  "py_ne x y = (case y of PFrame d \<Rightarrow> Inl ambiguous | _ \<Rightarrow> Inr (x \<noteq> y))"

text \<open>
  \<open>Feed.__eq__\<close>, over the keys of \<open>FEED_ATTRS_1\<close> in their order. \<open>helpers.almost_equal\<close> is
  not among the sources and is the parameter \<open>ae\<close>.
\<close>

fun eq_keys :: "(dataframe \<Rightarrow> dataframe \<Rightarrow> bool) \<Rightarrow> attr1 list \<Rightarrow> heap \<Rightarrow> feed \<Rightarrow> feed \<Rightarrow> error + bool" where
  "eq_keys ae [] h f g = Inr True"
| "eq_keys ae (k # ks) h f g =
     (case getattr1 h f k of
        PFrame x \<Rightarrow>
          (case getattr1 h g k of
             PFrame y \<Rightarrow> if \<not> ae x y then Inr False else eq_keys ae ks h f g
           | _ \<Rightarrow> Inr False)
      | x \<Rightarrow>
          (case py_ne x (getattr1 h g k) of
             Inl e \<Rightarrow> Inl e
           | Inr b \<Rightarrow> if b then Inr False else eq_keys ae ks h f g))"

definition feed_eq :: "constants \<Rightarrow> (dataframe \<Rightarrow> dataframe \<Rightarrow> bool) \<Rightarrow> heap \<Rightarrow> feed \<Rightarrow> feed \<Rightarrow> error + bool" where
  "feed_eq cs ae h f g = eq_keys ae (FEED_ATTRS_1 cs) h f g"


subsection \<open>Copy\<close>






text \<open>An in-place change of the frame object at \<open>r\<close>.\<close>

definition mutate :: "ref \<Rightarrow> dataframe \<Rightarrow> heap \<Rightarrow> heap" where
  "mutate r d h = h[r := DataFrame d]"

section \<open>Consistency of the derived attributes\<close>

text \<open>
  The derived attribute of \<open>trips\<close> and of \<open>calendar\<close> is consistent with the table
  attribute when: the table is \<open>None\<close> or empty and the derived attribute is \<open>None\<close>, or the
  table is a non-empty frame and the derived attribute is the frame that \<open>set_index\<close> builds
  from it.
\<close>

definition index_ok :: "string \<Rightarrow> ref option \<Rightarrow> ref option \<Rightarrow> heap \<Rightarrow> bool" where
  "index_ok k src ix h =
     (case src of
        None \<Rightarrow> ix = None
      | Some r \<Rightarrow>
          (case df_at h r of
             None \<Rightarrow> False
           | Some d \<Rightarrow>
               if empty_df d then ix = None
               else (case ix of
                       None \<Rightarrow> False
                     | Some r' \<Rightarrow>
                         (case df_at h r' of
                            None \<Rightarrow> False
                          | Some i \<Rightarrow> set_index k d = Inr i))))"

text \<open>The same for \<open>calendar_dates\<close>, whose derived attribute is a groupby object over it.\<close>

definition group_ok :: "string list \<Rightarrow> ref option \<Rightarrow> ref option \<Rightarrow> heap \<Rightarrow> bool" where
  "group_ok ks src ix h =
     (case src of
        None \<Rightarrow> ix = None
      | Some r \<Rightarrow>
          (case df_at h r of
             None \<Rightarrow> False
           | Some d \<Rightarrow>
               if empty_df d then ix = None
               else (case ix of
                       None \<Rightarrow> False
                     | Some r' \<Rightarrow> r' < length h \<and> h ! r' = DataFrameGroupBy r ks
                          \<and> missing_key ks (df_columns d) = None)))"

definition derived_ok :: "table \<Rightarrow> fstate \<Rightarrow> bool" where
  "derived_ok t s =
     (case s of (f, h) \<Rightarrow>
        if t = trips then index_ok ''trip_id'' (tbl f trips) (trips_i f) h
        else if t = calendar then index_ok ''service_id'' (tbl f calendar) (calendar_i f) h
        else if t = calendar_dates then
          group_ok [''service_id'', ''date''] (tbl f calendar_dates) (calendar_dates_g f) h
        else True)"

text \<open>The derived attribute that belongs to a table attribute, if it has one.\<close>

definition derived_attr :: "table \<Rightarrow> feed \<Rightarrow> ref option" where
  "derived_attr t f =
     (if t = trips then trips_i f
      else if t = calendar then calendar_i f
      else if t = calendar_dates then calendar_dates_g f
      else None)"

text \<open>A table attribute that holds a frame with at least one row and one column.\<close>

definition present_nonempty :: "ref option \<Rightarrow> heap \<Rightarrow> bool" where
  "present_nonempty val h =
     (case val of
        None \<Rightarrow> False
      | Some r \<Rightarrow> (case df_at h r of None \<Rightarrow> False | Some d \<Rightarrow> \<not> empty_df d))"

section \<open>Example values\<close>

text \<open>A registry instance and small frames, used to run the definitions on concrete inputs.\<close>

definition example_constants :: constants where
  "example_constants =
     \<lparr> DIST_UNITS = [''ft'', ''mi'', ''m'', ''km''],
       INT_COLS = [''route_type'', ''direction_id'', ''stop_sequence''],
       GTFS_TABLES = init_tables,
       FEED_ATTRS_1 = map Tbl init_tables @ [DistUnits],
       FEED_ATTRS = map Primary (map Tbl init_tables @ [DistUnits])
                      @ [TripsI, CalendarI, CalendarDatesG] \<rparr>"

definition no_tables :: "table \<Rightarrow> ref option" where
  "no_tables = (\<lambda>t. None)"

definition routes_frame :: dataframe where
  "routes_frame = \<lparr> df_index = [IntC 0], df_columns = [''route_id''],
                    df_rows = [[StrC ''r1'']] \<rparr>"

definition trips_frame :: dataframe where
  "trips_frame = \<lparr> df_index = [IntC 0, IntC 1], df_columns = [''route_id'', ''trip_id''],
                   df_rows = [[StrC ''r1'', StrC ''t1''], [StrC ''r1'', StrC ''t2'']] \<rparr>"

subsection \<open>Well-formed Feeds and duplicates\<close>

text \<open>A table attribute is \<open>None\<close> or refers to a frame in the heap.\<close>

definition table_ok :: "heap \<Rightarrow> ref option \<Rightarrow> bool" where
  "table_ok h val = (case val of None \<Rightarrow> True | Some r \<Rightarrow> df_at h r \<noteq> None)"








text \<open>A Feed with a \<open>trips\<close> table and its index, as the constructor builds it.\<close>

definition trips_index_frame :: dataframe where
  "trips_index_frame = \<lparr> df_index = [StrC ''t1'', StrC ''t2''], df_columns = [''route_id''],
                         df_rows = [[StrC ''r1''], [StrC ''r1'']] \<rparr>"

definition example_heap :: heap where
  "example_heap = [DataFrame trips_frame, DataFrame trips_index_frame]"

definition example_feed :: feed where
  "example_feed = blank\<lparr>dist_units := ''km'', tbl := no_tables(trips := Some 0), trips_i := Some 1\<rparr>"

section \<open>Files, archives and the network\<close>

text \<open>
  A path is a name given by the caller or a fresh name made by \<open>tempfile\<close>; the two never
  collide. A file system maps paths to files (their bytes) and directories (their entries,
  in the order in which \<open>iterdir\<close> yields them). \<open>next_tmp\<close> numbers the next temporary name.
\<close>

datatype path = Named string | Tmp nat

datatype node = File string | Dir "(string \<times> node) list"

record world =
  fs :: "path \<Rightarrow> node option"
  next_tmp :: nat

text \<open>
  The calls into pandas, shutil, requests and into \<open>cleaners.py\<close> (which is not among the
  sources) are parameters of the model:
  \<^item> \<open>read_csv\<close>: \<open>pd.read_csv(p, dtype=cs.DTYPE, encoding="utf-8-sig")\<close> on the bytes of a file;
  \<^item> \<open>to_csv\<close>: \<open>f.to_csv(p, index=False, float_format="%.{ndigits}f")\<close>, giving the bytes;
  \<^item> \<open>unpack_archive\<close> and \<open>make_archive\<close>: between the bytes of a zip file and its entries;
  \<^item> \<open>clean_column_names\<close>: the column-name cleaner;
  \<^item> \<open>py_int\<close>: Python's \<open>int\<close> on a string (\<open>None\<close> when it raises);
  \<^item> \<open>cast_overflow\<close>: what the cast of a float outside the 64-bit range gives;
  \<^item> \<open>head_ok\<close>: \<open>requests.head(url).ok\<close>, or the exception that the request raises;
  \<^item> \<open>get_content\<close>: the body of \<open>requests.get(url)\<close>, or the exception it raises.
\<close>

record lib =
  read_csv :: "string \<Rightarrow> error + dataframe"
  to_csv :: "nat \<Rightarrow> dataframe \<Rightarrow> string"
  unpack_archive :: "string \<Rightarrow> error + (string \<times> node) list"
  make_archive :: "(string \<times> node) list \<Rightarrow> string"
  clean_column_names :: "dataframe \<Rightarrow> dataframe"
  py_int :: "string \<Rightarrow> int option"
  cast_overflow :: "rat \<Rightarrow> int"
  head_ok :: "string \<Rightarrow> error + bool"
  get_content :: "string \<Rightarrow> error + string"

subsection \<open>Path names\<close>

text \<open>The text of a path, as an f-string prints it.\<close>

fun path_str :: "path \<Rightarrow> string" where
  "path_str (Named s) = s"
| "path_str (Tmp n) = ''/tmp/tmp'' @ replicate n (CHR ''x'')"

text \<open>
  \<open>PurePath.suffix\<close> and \<open>PurePath.stem\<close>: the name is split at its last dot, unless that dot
  is the first or the last character of the name.
\<close>

fun rfind_dot :: "string \<Rightarrow> nat option" where
  "rfind_dot [] = None"
| "rfind_dot (c # s) =
     (case rfind_dot s of
        Some i \<Rightarrow> Some (Suc i)
      | None \<Rightarrow> if c = CHR ''.'' then Some 0 else None)"

definition suffix :: "string \<Rightarrow> string" where
  "suffix name =
     (case rfind_dot name of
        None \<Rightarrow> []
      | Some i \<Rightarrow> if 0 < i \<and> i < length name - 1 then drop i name else [])"

definition stem :: "string \<Rightarrow> string" where
  "stem name =
     (case rfind_dot name of
        None \<Rightarrow> name
      | Some i \<Rightarrow> if 0 < i \<and> i < length name - 1 then take i name else name)"

text \<open>\<open>table in feed_dict\<close>: the key of the dictionary with this name, if there is one.\<close>

fun table_named :: "table list \<Rightarrow> string \<Rightarrow> table option" where
  "table_named [] s = None"
| "table_named (t # ts) s = (if table_name t = s then Some t else table_named ts s)"

subsection \<open>Reading a feed\<close>

text \<open>
  The loop of \<open>_read_feed_from_path\<close> over the directory entries: an entry that is a
  non-empty file named \<open><table>.txt\<close> is parsed; a parse error ends the loop; a frame that is
  not empty is cleaned and stored in \<open>feed_dict\<close>.
\<close>

fun read_tables :: "lib \<Rightarrow> constants \<Rightarrow> (string \<times> node) list \<Rightarrow> (table \<Rightarrow> ref option) \<Rightarrow> heap
    \<Rightarrow> (error + (table \<Rightarrow> ref option)) \<times> heap" where
  "read_tables lb cs [] feed_dict h = (Inr feed_dict, h)"
| "read_tables lb cs ((name, nd) # es) feed_dict h =
     (case nd of
        File c \<Rightarrow>
          if length c \<noteq> 0 \<and> suffix name = ''.txt''
             \<and> table_named (GTFS_TABLES cs) (stem name) \<noteq> None then
            (case read_csv lb c of
               Inl e \<Rightarrow> (Inl e, h)
             | Inr df \<Rightarrow>
                 if \<not> empty_df df then
                   (case alloc (DataFrame (clean_column_names lb df)) h of
                      (r, h') \<Rightarrow>
                        read_tables lb cs es
                          (feed_dict(the (table_named (GTFS_TABLES cs) (stem name)) := Some r)) h')
                 else read_tables lb cs es feed_dict h)
          else read_tables lb cs es feed_dict h
      | Dir x \<Rightarrow> read_tables lb cs es feed_dict h)"

text \<open>
  \<open>_read_feed_from_path\<close>. The result is the Feed or the exception, with the file system and
  the heap as they are when the function returns or raises.
\<close>

definition read_feed_from_path :: "lib \<Rightarrow> constants \<Rightarrow> path \<Rightarrow> string \<Rightarrow> world \<times> heap
    \<Rightarrow> (error + feed) \<times> world \<times> heap" where
  "read_feed_from_path lb cs p du s =
     (case s of (w, h) \<Rightarrow>
        case fs w p of
          None \<Rightarrow> (Inl (ValueError (''Path '' @ path_str p @ '' does not exist'')), w, h)
        | Some (File z) \<Rightarrow>
            (let tmp_dir = Tmp (next_tmp w);
                 w1 = w\<lparr>fs := (fs w)(tmp_dir \<mapsto> Dir []), next_tmp := Suc (next_tmp w)\<rparr>
             in case unpack_archive lb z of
                  Inl e \<Rightarrow> (Inl e, w1, h)
                | Inr es \<Rightarrow>
                    (let w2 = w1\<lparr>fs := (fs w1)(tmp_dir \<mapsto> Dir es)\<rparr>
                     in case read_tables lb cs es (\<lambda>t. None) h of
                          (Inl e, h') \<Rightarrow> (Inl e, w2, h')
                        | (Inr feed_dict, h') \<Rightarrow>
                            (let w3 = w2\<lparr>fs := (fs w2)(tmp_dir := None)\<rparr>
                             in case Feed cs du feed_dict h' of (res, h'') \<Rightarrow> (res, w3, h''))))
        | Some (Dir es) \<Rightarrow>
            (case read_tables lb cs es (\<lambda>t. None) h of
               (Inl e, h') \<Rightarrow> (Inl e, w, h')
             | (Inr feed_dict, h') \<Rightarrow>
                 (case Feed cs du feed_dict h' of (res, h'') \<Rightarrow> (res, w, h''))))"



subsection \<open>Writing a feed\<close>

text \<open>Python's \<open>str\<close> of an integer.\<close>

definition digit :: "nat \<Rightarrow> char" where
  "digit n = ''0123456789'' ! n"

fun str_nat :: "nat \<Rightarrow> string" where
  "str_nat n = (if n < 10 then [digit n] else str_nat (n div 10) @ [digit (n mod 10)])"

declare str_nat.simps [simp del]

definition str_int :: "int \<Rightarrow> string" where
  "str_int i = (if i < 0 then CHR ''-'' # str_nat (nat (- i)) else str_nat (nat i))"

text \<open>
  The chain \<open>fillna(-1).astype(int).astype(str).replace("-1", "")\<close> on one cell. The cast of
  a float truncates towards zero; of a text, it is Python's \<open>int\<close>, which may raise.
\<close>

definition fillna :: "cell \<Rightarrow> cell" where
  "fillna c = (case c of NaN \<Rightarrow> IntC (- 1) | _ \<Rightarrow> c)"

definition trunc :: "rat \<Rightarrow> int" where
  "trunc q = (if 0 \<le> q then \<lfloor>q\<rfloor> else \<lceil>q\<rceil>)"

definition astype_int :: "lib \<Rightarrow> cell \<Rightarrow> error + int" where
  "astype_int lb c =
     (case c of
        NaN \<Rightarrow> Inl (ValueError ''Cannot convert non-finite values (NA or inf) to integer'')
      | IntC i \<Rightarrow> Inr i
      | FloatC q \<Rightarrow>
          Inr (if - (2 ^ 63) \<le> trunc q \<and> trunc q < 2 ^ 63 then trunc q else cast_overflow lb q)
      | StrC s \<Rightarrow>
          (case py_int lb s of
             None \<Rightarrow> Inl (ValueError (''invalid literal for int() with base 10: '' @ repr_str s))
           | Some i \<Rightarrow> Inr i))"

definition replace_sentinel :: "string \<Rightarrow> string" where
  "replace_sentinel s = (if s = ''-1'' then [] else s)"

definition coerce_cell :: "lib \<Rightarrow> cell \<Rightarrow> error + cell" where
  "coerce_cell lb c =
     (case astype_int lb (fillna c) of
        Inl e \<Rightarrow> Inl e
      | Inr i \<Rightarrow> Inr (StrC (replace_sentinel (str_int i))))"

text \<open>A whole column: the first cell that cannot be cast raises.\<close>

fun coerce_col :: "lib \<Rightarrow> cell list \<Rightarrow> error + cell list" where
  "coerce_col lb [] = Inr []"
| "coerce_col lb (c # cs) =
     (case coerce_cell lb c of
        Inl e \<Rightarrow> Inl e
      | Inr c' \<Rightarrow> (case coerce_col lb cs of Inl e \<Rightarrow> Inl e | Inr cs' \<Rightarrow> Inr (c' # cs')))"

text \<open>\<open>f[s] = column\<close> on the rows of a frame, for the column at position \<open>j\<close>.\<close>

fun set_col :: "nat \<Rightarrow> cell list \<Rightarrow> cell list list \<Rightarrow> cell list list" where
  "set_col j (c # col) (r # rows) = r[j := c] # set_col j col rows"
| "set_col j col rows = rows"

text \<open>
  The loop over the integer columns of the frame. The columns assigned before a raise stay
  assigned, so the rows reached are returned together with the exception.
\<close>

fun coerce_cols :: "lib \<Rightarrow> nat list \<Rightarrow> cell list list \<Rightarrow> error option \<times> cell list list" where
  "coerce_cols lb [] rows = (None, rows)"
| "coerce_cols lb (j # js) rows =
     (case coerce_col lb (map (cell_at j) rows) of
        Inl e \<Rightarrow> (Some e, rows)
      | Inr col \<Rightarrow> coerce_cols lb js (set_col j col rows))"

text \<open>\<open>set(cs.INT_COLS) & set(f.columns)\<close>, as the positions of those columns.\<close>

definition int_col_positions :: "constants \<Rightarrow> dataframe \<Rightarrow> nat list" where
  "int_col_positions cs d =
     filter (\<lambda>j. df_columns d ! j \<in> set (INT_COLS cs)) [0..<length (df_columns d)]"

definition coerce_frame :: "lib \<Rightarrow> constants \<Rightarrow> dataframe \<Rightarrow> error option \<times> dataframe" where
  "coerce_frame lb cs d =
     (case coerce_cols lb (int_col_positions cs d) (df_rows d) of
        (e, rows) \<Rightarrow> (e, d\<lparr>df_rows := rows\<rparr>))"

text \<open>Writing a file into a directory replaces the entry of that name or adds one.\<close>

fun upd_entry :: "string \<Rightarrow> node \<Rightarrow> (string \<times> node) list \<Rightarrow> (string \<times> node) list" where
  "upd_entry name nd [] = [(name, nd)]"
| "upd_entry name nd ((n, x) # es) =
     (if n = name then (name, nd) # es else (n, x) # upd_entry name nd es)"

text \<open>
  The loop of \<open>Feed.write\<close> over the tables: a table that is not \<open>None\<close> is copied, the
  integer columns of the copy are rewritten in place, and the copy is written as
  \<open><table>.txt\<close> into the directory \<open>new_path\<close>.
\<close>

fun write_tables :: "lib \<Rightarrow> constants \<Rightarrow> nat \<Rightarrow> feed \<Rightarrow> path \<Rightarrow> table list \<Rightarrow> world \<times> heap
    \<Rightarrow> error option \<times> world \<times> heap" where
  "write_tables lb cs ndigits self new_path [] s = (None, s)"
| "write_tables lb cs ndigits self new_path (t # ts) s =
     (case s of (w, h) \<Rightarrow>
        case tbl self t of
          None \<Rightarrow> write_tables lb cs ndigits self new_path ts s
        | Some r \<Rightarrow>
            (case df_at h r of
               None \<Rightarrow> (Some (AttributeError ''copy''), w, h)
             | Some d \<Rightarrow>
                 (case alloc (DataFrame d) h of
                    (r', h1) \<Rightarrow>
                      (case coerce_frame lb cs d of
                         (Some e, d') \<Rightarrow> (Some e, w, mutate r' d' h1)
                       | (None, d') \<Rightarrow>
                           (case fs w new_path of
                              Some (Dir es) \<Rightarrow>
                                write_tables lb cs ndigits self new_path ts
                                  (w\<lparr>fs := (fs w)(new_path \<mapsto>
                                      Dir (upd_entry (table_name t @ ''.txt'')
                                             (File (to_csv lb ndigits d')) es))\<rparr>,
                                   mutate r' d' h1)
                            | _ \<Rightarrow>
                                (Some (OSError ''Not a directory''), w, mutate r' d' h1))))))"

text \<open>The last component of a path string.\<close>

fun base_name :: "string \<Rightarrow> string" where
  "base_name [] = []"
| "base_name (c # s) = (if CHR ''/'' \<in> set s then base_name s else if c = CHR ''/'' then s else c # s)"

text \<open>
  \<open>Feed.write\<close> (the name \<open>write\<close> is taken in Isabelle). With a \<open>.zip\<close> suffix the tables go to a temporary directory, which is
  archived at \<open>path\<close> and then removed; otherwise they go to the directory \<open>path\<close>, which is
  made if nothing exists there.
\<close>

definition Feed_write :: "lib \<Rightarrow> constants \<Rightarrow> feed \<Rightarrow> string \<Rightarrow> nat \<Rightarrow> world \<times> heap
    \<Rightarrow> error option \<times> world \<times> heap" where
  "Feed_write lb cs self path ndigits s =
     (case s of (w, h) \<Rightarrow>
        if suffix (base_name path) = ''.zip'' then
          (let tmp_dir = Tmp (next_tmp w);
               w1 = w\<lparr>fs := (fs w)(tmp_dir \<mapsto> Dir []), next_tmp := Suc (next_tmp w)\<rparr>
           in case write_tables lb cs ndigits self tmp_dir (remdups (GTFS_TABLES cs)) (w1, h) of
                (Some e, w2, h2) \<Rightarrow> (Some e, w2, h2)
              | (None, w2, h2) \<Rightarrow>
                  (case fs w2 tmp_dir of
                     Some (Dir es) \<Rightarrow>
                       (None,
                        w2\<lparr>fs := ((fs w2)(Named path \<mapsto> File (make_archive lb es)))
                                    (tmp_dir := None)\<rparr>,
                        h2)
                   | _ \<Rightarrow> (Some (OSError ''Not a directory''), w2, h2)))
        else
          (let w1 = (if fs w (Named path) = None
                     then w\<lparr>fs := (fs w)(Named path \<mapsto> Dir [])\<rparr> else w)
           in write_tables lb cs ndigits self (Named path) (remdups (GTFS_TABLES cs)) (w1, h)))"

subsection \<open>Example library behaviour and files\<close>

text \<open>
  A header-only file, a one-row file and a malformed file, with a library instance that
  parses exactly these, for running the readers and the writer on concrete inputs.
\<close>

definition header_bytes :: string where
  "header_bytes = ''route_id'' @ [CHR 0x0A]"

definition routes_bytes :: string where
  "routes_bytes = ''route_id'' @ [CHR 0x0A] @ ''r1'' @ [CHR 0x0A]"

definition header_only :: dataframe where
  "header_only = \<lparr> df_index = [], df_columns = [''route_id''], df_rows = [] \<rparr>"

definition example_lib :: lib where
  "example_lib =
     \<lparr> read_csv = (\<lambda>c. if c = header_bytes then Inr header_only
                        else if c = routes_bytes then Inr routes_frame
                        else Inl (ParserError ''Error tokenizing data'')),
       to_csv = (\<lambda>n d. if df_rows d = [] then header_bytes else routes_bytes),
       unpack_archive = (\<lambda>z. if z = ''PK'' then Inr [(''routes.txt'', File ''a,b'')]
                              else Inl (ReadError ''not a zip file'')),
       make_archive = (\<lambda>es. ''PK''),
       clean_column_names = (\<lambda>d. d),
       py_int = (\<lambda>s. None),
       cast_overflow = (\<lambda>q. - (2 ^ 63)),
       head_ok = (\<lambda>u. if u = ''http://example.org/feed.zip'' then Inr True
                       else if u = ''http://example.org/missing'' then Inr False
                       else Inl (TransportError ''Invalid URL: No scheme supplied'')),
       get_content = (\<lambda>u. Inr ''PK'') \<rparr>"

definition empty_world :: world where
  "empty_world = \<lparr> fs = (\<lambda>p. None), next_tmp = 0 \<rparr>"

definition bundle_world :: world where
  "bundle_world =
     empty_world\<lparr>fs := (fs empty_world)(Named ''feed'' \<mapsto> Dir [(''routes.txt'', File header_bytes)])\<rparr>"

definition zip_world :: world where
  "zip_world = empty_world\<lparr>fs := (fs empty_world)(Named ''feed.zip'' \<mapsto> File ''PK'')\<rparr>"

definition typed_routes_frame :: dataframe where
  "typed_routes_frame = \<lparr> df_index = [IntC 0], df_columns = [''route_id'', ''route_type''],
                          df_rows = [[StrC ''r1'', StrC ''bus'']] \<rparr>"

text \<open>An entry of a directory that the loader leaves out of \<open>feed_dict\<close>.\<close>

definition skipped :: "lib \<Rightarrow> node \<Rightarrow> bool" where
  "skipped lb nd =
     (case nd of
        Dir x \<Rightarrow> True
      | File c \<Rightarrow> c = [] \<or> (case read_csv lb c of Inl e \<Rightarrow> True | Inr df \<Rightarrow> empty_df df))"



section \<open>Writing and loading again\<close>













section \<open>Heap and frame lemmas\<close>

lemma df_at_append_Some: "df_at h r = Some d \<Longrightarrow> df_at (h @ k) r = Some d"
  by (simp add: df_at_def nth_append split: if_splits)

lemma df_at_Some_less: "df_at h r = Some d \<Longrightarrow> r < length h"
  by (simp add: df_at_def split: if_splits)

lemma df_at_alloc: "df_at (h @ [DataFrame d]) (length h) = Some d"
  by (simp add: df_at_def)

lemma index_ok_append: "index_ok k src ix h \<Longrightarrow> index_ok k src ix (h @ k')"
  by (auto simp: index_ok_def df_at_append_Some split: option.splits if_splits)

lemma group_ok_append: "group_ok ks src ix h \<Longrightarrow> group_ok ks src ix (h @ k')"
  by (auto simp: group_ok_def df_at_append_Some nth_append split: option.splits if_splits)

lemma index_ok_None: "index_ok k None None h"
  by (simp add: index_ok_def)

lemma index_ok_empty: "df_at h r = Some d \<Longrightarrow> empty_df d \<Longrightarrow> index_ok k (Some r) None h"
  by (simp add: index_ok_def)

lemma index_ok_alloc:
  "df_at h r = Some d \<Longrightarrow> \<not> empty_df d \<Longrightarrow> set_index k d = Inr ix \<Longrightarrow>
     index_ok k (Some r) (Some (length h)) (h @ [DataFrame ix])"
  by (simp add: index_ok_def df_at_append_Some df_at_alloc)

lemma group_ok_None: "group_ok ks None None h"
  by (simp add: group_ok_def)

lemma group_ok_empty: "df_at h r = Some d \<Longrightarrow> empty_df d \<Longrightarrow> group_ok ks (Some r) None h"
  by (simp add: group_ok_def)

lemma group_ok_alloc:
  "df_at h r = Some d \<Longrightarrow> \<not> empty_df d \<Longrightarrow> groupby ks r d = Inr g \<Longrightarrow>
     group_ok ks (Some r) (Some (length h)) (h @ [g])"
  by (auto simp: group_ok_def groupby_def df_at_append_Some split: option.splits)

section \<open>The setters keep the derived attributes consistent\<close>

lemma set_trips_ok:
  "set_trips val s = (None, s') \<Longrightarrow> tbl (fst s') trips = val \<and> derived_ok trips s'"
  by (cases s)
     (auto simp: set_trips_def derived_ok_def alloc_def Let_def index_ok_None index_ok_empty
                 index_ok_alloc
           split: option.splits if_splits sum.splits)

lemma set_calendar_ok:
  "set_calendar val s = (None, s') \<Longrightarrow> tbl (fst s') calendar = val \<and> derived_ok calendar s'"
  by (cases s)
     (auto simp: set_calendar_def derived_ok_def alloc_def Let_def index_ok_None index_ok_empty
                 index_ok_alloc
           split: option.splits if_splits sum.splits)

lemma set_calendar_dates_ok:
  "set_calendar_dates val s = (None, s') \<Longrightarrow>
     tbl (fst s') calendar_dates = val \<and> derived_ok calendar_dates s'"
  by (cases s)
     (auto simp: set_calendar_dates_def derived_ok_def alloc_def Let_def group_ok_None
                 group_ok_empty group_ok_alloc
           split: option.splits if_splits sum.splits)

lemma set_table_ok:
  "set_table t val s = (None, s') \<Longrightarrow> tbl (fst s') t = val \<and> derived_ok t s'"
  using set_trips_ok set_calendar_ok set_calendar_dates_ok
  by (cases s) (auto simp: set_table_def derived_ok_def split: if_splits)

lemma set_table_frame:
  "set_table t val (f, h) = (e, (f', h')) \<Longrightarrow>
     (\<exists>k. h' = h @ k) \<and> tbl f' = (tbl f)(t := val) \<and> dist_units f' = dist_units f \<and>
     (t \<noteq> trips \<longrightarrow> trips_i f' = trips_i f) \<and>
     (t \<noteq> calendar \<longrightarrow> calendar_i f' = calendar_i f) \<and>
     (t \<noteq> calendar_dates \<longrightarrow> calendar_dates_g f' = calendar_dates_g f)"
  by (auto simp: set_table_def set_trips_def set_calendar_def set_calendar_dates_def alloc_def
                 Let_def
           split: option.splits if_splits sum.splits)

lemma derived_ok_other:
  "derived_ok t s \<Longrightarrow> t \<notin> {trips, calendar, calendar_dates} \<Longrightarrow> derived_ok t s'"
  by (cases s, cases s') (simp add: derived_ok_def)

lemma derived_ok_set_table:
  assumes "set_table t val s = (e, s')" and "derived_ok u s" and "t \<noteq> u"
  shows "derived_ok u s'"
proof -
  obtain f h f' h' where s: "s = (f, h)" "s' = (f', h')" by (cases s, cases s') auto
  from assms(1) have fr: "(\<exists>k. h' = h @ k) \<and> tbl f' = (tbl f)(t := val) \<and>
     (t \<noteq> trips \<longrightarrow> trips_i f' = trips_i f) \<and>
     (t \<noteq> calendar \<longrightarrow> calendar_i f' = calendar_i f) \<and>
     (t \<noteq> calendar_dates \<longrightarrow> calendar_dates_g f' = calendar_dates_g f)"
    unfolding s using set_table_frame by blast
  then obtain k where k: "h' = h @ k" by blast
  show ?thesis
  proof (cases "u \<in> {trips, calendar, calendar_dates}")
    case False
    with assms(2) show ?thesis by (rule derived_ok_other)
  next
    case True
    with assms(2,3) fr show ?thesis
      unfolding s k
      by (auto simp: derived_ok_def index_ok_append group_ok_append split: if_splits)
  qed
qed

lemma derived_ok_set_tables:
  "set_tables ts args s = (None, s') \<Longrightarrow> derived_ok t s \<Longrightarrow> t \<notin> set ts \<Longrightarrow> derived_ok t s'"
proof (induction ts arbitrary: s)
  case Nil
  then show ?case by simp
next
  case (Cons a ts)
  from Cons.prems(1) obtain s2 where a: "set_table a (args a) s = (None, s2)"
    and r: "set_tables ts args s2 = (None, s')"
    by (auto split: prod.splits option.splits)
  from Cons.prems(3) have "a \<noteq> t" "t \<notin> set ts" by auto
  from derived_ok_set_table[OF a Cons.prems(2) this(1)] have "derived_ok t s2" .
  from Cons.IH[OF r this \<open>t \<notin> set ts\<close>] show ?case .
qed

lemma set_tables_ok:
  "distinct ts \<Longrightarrow> set_tables ts args s = (None, s') \<Longrightarrow>
     (\<forall>t\<in>set ts. tbl (fst s') t = args t \<and> derived_ok t s') \<and>
     (\<forall>u. u \<notin> set ts \<longrightarrow> tbl (fst s') u = tbl (fst s) u) \<and>
     dist_units (fst s') = dist_units (fst s)"
proof (induction ts arbitrary: s)
  case Nil
  then show ?case by simp
next
  case (Cons t ts)
  from Cons.prems(2) obtain s1 where st: "set_table t (args t) s = (None, s1)"
    and rest: "set_tables ts args s1 = (None, s')"
    by (auto split: prod.splits option.splits)
  from Cons.prems(1) have d: "distinct ts" and nt: "t \<notin> set ts" by auto
  note IH = Cons.IH[OF d rest]
  from set_table_ok[OF st] have t1: "tbl (fst s1) t = args t" "derived_ok t s1" by auto
  obtain f h f1 h1 where ss: "s = (f, h)" "s1 = (f1, h1)" by (cases s, cases s1) auto
  from set_table_frame[OF st[unfolded ss]]
  have fr: "tbl f1 = (tbl f)(t := args t)" "dist_units f1 = dist_units f" by auto
  have ok_t: "derived_ok t s'" using derived_ok_set_tables[OF rest t1(2) nt] .
  from IH nt have tt: "tbl (fst s') t = args t" using t1(1) by auto
  show ?case using IH ok_t tt fr ss by auto
qed

lemma set_table_error_kind:
  "set_table t val s = (Some e, s') \<Longrightarrow> (\<exists>k. e = KeyError k) \<or> (\<exists>m. e = AttributeError m)"
  by (cases s)
     (auto simp: set_table_def set_trips_def set_calendar_def set_calendar_dates_def alloc_def
                 Let_def set_index_def groupby_def
           split: option.splits if_splits sum.splits)

lemma set_tables_error_kind:
  "set_tables ts args s = (Some e, s') \<Longrightarrow> (\<exists>k. e = KeyError k) \<or> (\<exists>m. e = AttributeError m)"
proof (induction ts arbitrary: s)
  case Nil
  then show ?case by simp
next
  case (Cons t ts)
  then show ?case
    by (auto split: prod.splits option.splits dest: set_table_error_kind)
qed

lemma init_tables_all: "distinct init_tables" "set init_tables = UNIV"
proof -
  show "distinct init_tables" by (simp add: init_tables_def)
  have "t \<in> set init_tables" for t by (cases t) (simp_all add: init_tables_def)
  then show "set init_tables = UNIV" by auto
qed

section \<open>Construction and assignment\<close>

lemma example_primary_all: "set (FEED_ATTRS_1 example_constants) = UNIV"
proof -
  have "a \<in> set (FEED_ATTRS_1 example_constants)" for a
  proof (cases a)
    case DistUnits
    then show ?thesis by (simp add: example_constants_def)
  next
    case (Tbl t)
    have "t \<in> set init_tables" using init_tables_all(2) by simp
    with Tbl show ?thesis by (simp add: example_constants_def)
  qed
  then show ?thesis by auto
qed

lemma Feed_cases:
  "set (FEED_ATTRS_1 cs) = UNIV \<Longrightarrow> Feed cs du args h =
     (if du \<notin> set (DIST_UNITS cs) then (Inl (dist_units_error cs), h)
      else (case set_tables init_tables args (blank\<lparr>dist_units := du\<rparr>, h) of
              (Some e, (f, h')) \<Rightarrow> (Inl e, h')
            | (None, (f, h')) \<Rightarrow> (Inr f, h')))"
  by (simp add: Feed_def set_dist_units_def)

lemma Feed_invalid:
  "DistUnits \<in> set (FEED_ATTRS_1 cs) \<Longrightarrow> du \<notin> set (DIST_UNITS cs) \<Longrightarrow>
     Feed cs du args h = (Inl (dist_units_error cs), h)"
  by (simp add: Feed_def set_dist_units_def)

lemma blank_derived_ok: "derived_ok u (blank\<lparr>dist_units := x\<rparr>, h)" "derived_ok u (blank, h)"
  by (simp_all add: derived_ok_def index_ok_def group_ok_def blank_def)

lemma Feed_Inr_gen:
  assumes "Feed cs du args h = (Inr f, h')"
  shows "(DistUnits \<in> set (FEED_ATTRS_1 cs) \<longrightarrow> du \<in> set (DIST_UNITS cs) \<and> dist_units f = du) \<and>
         (\<forall>t. tbl f t = (if Tbl t \<in> set (FEED_ATTRS_1 cs) then args t else None) \<and>
              derived_ok t (f, h'))"
proof -
  let ?ts = "filter (\<lambda>t. Tbl t \<in> set (FEED_ATTRS_1 cs)) init_tables"
  from assms have "\<exists>b0. (b0 = blank \<or> b0 = blank\<lparr>dist_units := du\<rparr>) \<and>
      (DistUnits \<in> set (FEED_ATTRS_1 cs) \<longrightarrow> du \<in> set (DIST_UNITS cs) \<and> dist_units b0 = du) \<and>
      set_tables ?ts args (b0, h) = (None, (f, h'))"
    by (auto simp: Feed_def set_dist_units_def split: if_splits prod.splits option.splits)
  then obtain b0 where b0: "b0 = blank \<or> b0 = blank\<lparr>dist_units := du\<rparr>"
    and dd: "DistUnits \<in> set (FEED_ATTRS_1 cs) \<longrightarrow> du \<in> set (DIST_UNITS cs) \<and> dist_units b0 = du"
    and st: "set_tables ?ts args (b0, h) = (None, (f, h'))"
    by blast
  have d: "distinct ?ts" using init_tables_all(1) by simp
  from set_tables_ok[OF d st]
  have in_ts: "\<forall>t\<in>set ?ts. tbl f t = args t \<and> derived_ok t (f, h')"
    and out_ts: "\<forall>u. u \<notin> set ?ts \<longrightarrow> tbl f u = tbl b0 u"
    and du: "dist_units f = dist_units b0" by auto
  have ini: "derived_ok u (b0, h)" for u using b0 blank_derived_ok by auto
  have "tbl f t = (if Tbl t \<in> set (FEED_ATTRS_1 cs) then args t else None) \<and> derived_ok t (f, h')"
    for t
  proof (cases "t \<in> set ?ts")
    case True
    with in_ts show ?thesis by auto
  next
    case False
    with init_tables_all(2) have n: "Tbl t \<notin> set (FEED_ATTRS_1 cs)" by auto
    from out_ts False b0 have "tbl f t = None" by (auto simp: blank_def)
    with n derived_ok_set_tables[OF st ini False] show ?thesis by simp
  qed
  with dd du show ?thesis by auto
qed

lemma Feed_Inr:
  assumes "Feed cs du args h = (Inr f, h')" and "set (FEED_ATTRS_1 cs) = UNIV"
  shows "du \<in> set (DIST_UNITS cs) \<and> dist_units f = du \<and> tbl f = args \<and> (\<forall>t. derived_ok t (f, h'))"
  using Feed_Inr_gen[OF assms(1)] assms(2) by auto

lemma Feed_Inl:
  assumes "Feed cs du args h = (Inl e, h')" and "du \<in> set (DIST_UNITS cs)"
  shows "(\<exists>k. e = KeyError k) \<or> (\<exists>m. e = AttributeError m)"
proof -
  from assms obtain b0 s' where
    "set_tables (filter (\<lambda>t. Tbl t \<in> set (FEED_ATTRS_1 cs)) init_tables) args (b0, h) = (Some e, s')"
    by (auto simp: Feed_def set_dist_units_def split: if_splits prod.splits option.splits)
  then show ?thesis by (rule set_tables_error_kind)
qed

text \<open>
  Claim C5. Assigning \<open>v\<close> to \<open>dist_units\<close> stores it when \<open>v\<close> is one of the
  registry's distance units and otherwise raises, at once and with the Feed unchanged, the
  \<open>ValueError\<close> whose message prints the allowed list. Constructing a Feed with an invalid
  \<open>v\<close> raises that error before any table is assigned; with a valid \<open>v\<close> the constructor
  raises no \<open>ValueError\<close>, and the Feed it returns holds \<open>v\<close> (the constructor assigns
  \<open>dist_units\<close> because the registry lists it among the primary attributes).
\<close>

theorem dist_units_validated:
  "set_dist_units cs v (f, h) =
     (if v \<in> set (DIST_UNITS cs) then (None, (f\<lparr>dist_units := v\<rparr>, h))
      else (Some (ValueError (''Distance units are required and must lie in ''
                                @ repr_list (DIST_UNITS cs))), (f, h)))
   \<and> (DistUnits \<in> set (FEED_ATTRS_1 cs) \<and> v \<notin> set (DIST_UNITS cs) \<longrightarrow>
        Feed cs v args h =
          (Inl (ValueError (''Distance units are required and must lie in ''
                              @ repr_list (DIST_UNITS cs))), h))
   \<and> (v \<in> set (DIST_UNITS cs) \<longrightarrow>
        (\<forall>m. fst (Feed cs v args h) \<noteq> Inl (ValueError m)) \<and>
        (\<forall>g h'. DistUnits \<in> set (FEED_ATTRS_1 cs) \<and> Feed cs v args h = (Inr g, h') \<longrightarrow>
                  dist_units g = v))"
proof (intro conjI impI allI)
  show "set_dist_units cs v (f, h) =
     (if v \<in> set (DIST_UNITS cs) then (None, (f\<lparr>dist_units := v\<rparr>, h))
      else (Some (ValueError (''Distance units are required and must lie in ''
                                @ repr_list (DIST_UNITS cs))), (f, h)))"
    by (simp add: set_dist_units_def dist_units_error_def)
next
  assume "DistUnits \<in> set (FEED_ATTRS_1 cs) \<and> v \<notin> set (DIST_UNITS cs)"
  then show "Feed cs v args h =
          (Inl (ValueError (''Distance units are required and must lie in ''
                              @ repr_list (DIST_UNITS cs))), h)"
    by (simp add: Feed_invalid dist_units_error_def)
next
  fix m assume v: "v \<in> set (DIST_UNITS cs)"
  show "fst (Feed cs v args h) \<noteq> Inl (ValueError m)"
  proof
    assume a: "fst (Feed cs v args h) = Inl (ValueError m)"
    then obtain h' where "Feed cs v args h = (Inl (ValueError m), h')"
      by (cases "Feed cs v args h") auto
    from Feed_Inl[OF this v] show False by auto
  qed
next
  fix g h' assume "DistUnits \<in> set (FEED_ATTRS_1 cs) \<and> Feed cs v args h = (Inr g, h')"
  then show "dist_units g = v" using Feed_Inr_gen[of cs v args h g h'] by simp
qed

lemma Feed_example:
  "Feed example_constants ''km'' no_tables [] = (Inr (blank\<lparr>dist_units := ''km''\<rparr>), [])"
  by (simp add: Feed_cases example_primary_all)
     (simp add: example_constants_def init_tables_def no_tables_def set_table_def
        set_trips_def set_calendar_def set_calendar_dates_def blank_def)

theorem dist_units_validated_witness:
  "DistUnits \<in> set (FEED_ATTRS_1 example_constants)
   \<and> ''mile'' \<notin> set (DIST_UNITS example_constants)
   \<and> Feed example_constants ''mile'' no_tables [] =
       (Inl (ValueError ''Distance units are required and must lie in ['ft', 'mi', 'm', 'km']''), [])
   \<and> ''km'' \<in> set (DIST_UNITS example_constants)
   \<and> Feed example_constants ''km'' no_tables [] = (Inr (blank\<lparr>dist_units := ''km''\<rparr>), [])
   \<and> dist_units (blank\<lparr>dist_units := ''km''\<rparr>) = ''km''"
  using dist_units_validated [of example_constants "''mile''" blank "[]" no_tables]
        dist_units_validated [of example_constants "''km''" blank "[]" no_tables] Feed_example
        example_primary_all
  by (simp add: example_constants_def repr_list_def repr_str_def)

lemma derived_ok_present:
  "derived_ok t (f, h) \<Longrightarrow> t \<in> {trips, calendar, calendar_dates} \<Longrightarrow>
     (derived_attr t f \<noteq> None) = present_nonempty (tbl f t) h"
  by (auto simp: derived_ok_def derived_attr_def present_nonempty_def index_ok_def group_ok_def
           split: option.splits if_splits)

lemma set_table_None:
  "set_table t None (f, h) = (None, (f', h')) \<Longrightarrow> derived_attr t f' = None \<and> tbl f' t = None"
  by (auto simp: set_table_def set_trips_def set_calendar_def set_calendar_dates_def
                 derived_attr_def split: if_splits)

lemma set_table_None_returns: "fst (set_table t None s) = None"
  by (cases s) (auto simp: set_table_def set_trips_def set_calendar_def set_calendar_dates_def)

text \<open>
  Claim C3, amended. Whenever an assignment to a table attribute returns without raising, the
  attribute holds the assigned value and its derived attribute is consistent with it: present
  exactly when the assigned value is a frame with at least one row and one column, and then
  built from that frame. The same holds for all three derived attributes of every Feed that
  the constructor returns. Assigning \<open>None\<close> never raises and leaves the derived attribute
  \<open>None\<close>.
\<close>

theorem derived_index_consistent:
  "(set_table t val s = (None, (f', h')) \<longrightarrow>
      tbl f' t = val \<and> derived_ok t (f', h') \<and>
      (t \<in> {trips, calendar, calendar_dates} \<longrightarrow>
         (derived_attr t f' \<noteq> None) = present_nonempty val h'))
   \<and> (Feed cs du args h = (Inr g, hg) \<and> set (FEED_ATTRS_1 cs) = UNIV \<longrightarrow>
        tbl g = args \<and>
        (\<forall>u. derived_ok u (g, hg)) \<and>
        (\<forall>u\<in>{trips, calendar, calendar_dates}.
           (derived_attr u g \<noteq> None) = present_nonempty (args u) hg))
   \<and> fst (set_table t None s) = None
   \<and> derived_attr t (fst (snd (set_table t None s))) = None"
proof (intro conjI impI)
  assume a: "set_table t val s = (None, (f', h'))"
  from set_table_ok[OF a] show "tbl f' t = val" and ok: "derived_ok t (f', h')" by auto
  assume "t \<in> {trips, calendar, calendar_dates}"
  from derived_ok_present[OF ok this] \<open>tbl f' t = val\<close>
  show "(derived_attr t f' \<noteq> None) = present_nonempty val h'" by simp
next
  assume a: "Feed cs du args h = (Inr g, hg) \<and> set (FEED_ATTRS_1 cs) = UNIV"
  then have a1: "Feed cs du args h = (Inr g, hg)" and a2: "set (FEED_ATTRS_1 cs) = UNIV" by auto
  from Feed_Inr[OF a1 a2] show "tbl g = args" and ok: "\<forall>u. derived_ok u (g, hg)" by auto
  show "\<forall>u\<in>{trips, calendar, calendar_dates}.
           (derived_attr u g \<noteq> None) = present_nonempty (args u) hg"
  proof
    fix u :: table assume u: "u \<in> {trips, calendar, calendar_dates}"
    from ok have "derived_ok u (g, hg)" by simp
    from derived_ok_present[OF this u] \<open>tbl g = args\<close>
    show "(derived_attr u g \<noteq> None) = present_nonempty (args u) hg" by simp
  qed
next
  show "fst (set_table t None s) = None" by (rule set_table_None_returns)
next
  obtain f h where s: "s = (f, h)" by (cases s)
  obtain e f' h' where r: "set_table t None (f, h) = (e, (f', h'))"
    by (cases "set_table t None (f, h)") auto
  with set_table_None_returns[of t "(f, h)"] have "e = None" by simp
  with r set_table_None[of t f h f' h'] show "derived_attr t (fst (snd (set_table t None s))) = None"
    by (simp add: s)
qed

lemma set_trips_example:
  "set_table trips (Some 0) (blank, [DataFrame trips_frame]) =
     (None, (blank\<lparr>tbl := (tbl blank)(trips := Some 0), trips_i := Some 1\<rparr>,
        [DataFrame trips_frame,
         DataFrame \<lparr> df_index = [StrC ''t1'', StrC ''t2''], df_columns = [''route_id''],
                     df_rows = [[StrC ''r1''], [StrC ''r1'']] \<rparr>]))"
  by (simp add: set_table_def set_trips_def df_at_def trips_frame_def empty_df_def set_index_def
        alloc_def drop_nth_def cell_at_def)

lemma Feed_trips_example:
  "Feed example_constants ''km'' (no_tables(trips := Some 0)) [DataFrame trips_frame] =
     (Inr (blank\<lparr>dist_units := ''km'', tbl := no_tables(trips := Some 0), trips_i := Some 1\<rparr>),
        [DataFrame trips_frame,
         DataFrame \<lparr> df_index = [StrC ''t1'', StrC ''t2''], df_columns = [''route_id''],
                     df_rows = [[StrC ''r1''], [StrC ''r1'']] \<rparr>])"
  by (simp add: Feed_cases example_primary_all)
     (simp add: example_constants_def init_tables_def no_tables_def set_table_def
        set_trips_def set_calendar_def set_calendar_dates_def blank_def
         df_at_def trips_frame_def empty_df_def set_index_def
        alloc_def drop_nth_def cell_at_def)

theorem derived_index_consistent_witness:
  "set_table trips (Some 0) (blank, [DataFrame trips_frame]) =
     (None, (blank\<lparr>tbl := (tbl blank)(trips := Some 0), trips_i := Some 1\<rparr>,
        [DataFrame trips_frame,
         DataFrame \<lparr> df_index = [StrC ''t1'', StrC ''t2''], df_columns = [''route_id''],
                     df_rows = [[StrC ''r1''], [StrC ''r1'']] \<rparr>]))
   \<and> derived_ok trips (blank\<lparr>tbl := (tbl blank)(trips := Some 0), trips_i := Some 1\<rparr>,
        [DataFrame trips_frame,
         DataFrame \<lparr> df_index = [StrC ''t1'', StrC ''t2''], df_columns = [''route_id''],
                     df_rows = [[StrC ''r1''], [StrC ''r1'']] \<rparr>])
   \<and> derived_ok trips
        (blank\<lparr>dist_units := ''km'', tbl := no_tables(trips := Some 0), trips_i := Some 1\<rparr>,
        [DataFrame trips_frame,
         DataFrame \<lparr> df_index = [StrC ''t1'', StrC ''t2''], df_columns = [''route_id''],
                     df_rows = [[StrC ''r1''], [StrC ''r1'']] \<rparr>])"
  using derived_index_consistent [of trips "Some 0" "(blank, [DataFrame trips_frame])"
          "blank\<lparr>tbl := (tbl blank)(trips := Some 0), trips_i := Some 1\<rparr>"
          "[DataFrame trips_frame,
         DataFrame \<lparr> df_index = [StrC ''t1'', StrC ''t2''], df_columns = [''route_id''],
                     df_rows = [[StrC ''r1''], [StrC ''r1'']] \<rparr>]"
          example_constants "''km''" "no_tables(trips := Some 0)" "[DataFrame trips_frame]"
          "blank\<lparr>dist_units := ''km'', tbl := no_tables(trips := Some 0), trips_i := Some 1\<rparr>"
          "[DataFrame trips_frame,
         DataFrame \<lparr> df_index = [StrC ''t1'', StrC ''t2''], df_columns = [''route_id''],
                     df_rows = [[StrC ''r1''], [StrC ''r1'']] \<rparr>]"]
        set_trips_example Feed_trips_example example_primary_all
  by simp

text \<open>
  The claim as stated fails for an assignment that raises: a non-empty frame without the
  column \<open>trip_id\<close> is stored as \<open>trips\<close>, then \<open>set_index\<close> raises \<open>KeyError\<close>, and
  the Feed is left with a non-empty \<open>trips\<close> and no derived index.
\<close>

theorem derived_index_counterexample:
  "Feed example_constants ''km'' no_tables [] = (Inr (blank\<lparr>dist_units := ''km''\<rparr>), [])
   \<and> set_table trips (Some 0) (blank\<lparr>dist_units := ''km''\<rparr>, [DataFrame routes_frame]) =
     (Some (KeyError ''trip_id''),
      (blank\<lparr>dist_units := ''km'', tbl := (tbl blank)(trips := Some 0)\<rparr>, [DataFrame routes_frame]))
   \<and> \<not> derived_ok trips
         (blank\<lparr>dist_units := ''km'', tbl := (tbl blank)(trips := Some 0)\<rparr>, [DataFrame routes_frame])"
  using Feed_example
  by (simp add: set_table_def set_trips_def df_at_def routes_frame_def empty_df_def set_index_def
        derived_ok_def index_ok_def blank_def)

section \<open>Equality of Feeds\<close>


text \<open>
  Claim C2, at the failing input. The left Feed has no \<open>routes\<close> table and the right one has
  a one-row \<open>routes\<close> table, all else equal. The comparison reaches \<open>x != y\<close> with \<open>x\<close>
  \<open>None\<close> and \<open>y\<close> a frame and raises \<open>ValueError\<close> instead of answering \<open>False\<close>; with the
  two Feeds swapped, the branch for a frame \<open>x\<close> answers \<open>False\<close>.
\<close>

theorem eq_absent_present_raises:
  "feed_eq example_constants ae [DataFrame routes_frame]
     (blank\<lparr>dist_units := ''km''\<rparr>)
     (blank\<lparr>dist_units := ''km'', tbl := no_tables(routes := Some 0)\<rparr>) = Inl ambiguous
   \<and> feed_eq example_constants ae [DataFrame routes_frame]
     (blank\<lparr>dist_units := ''km'', tbl := no_tables(routes := Some 0)\<rparr>)
     (blank\<lparr>dist_units := ''km''\<rparr>) = Inr False"
  by (simp add: feed_eq_def example_constants_def init_tables_def getattr1_def blank_def
        no_tables_def py_ne_def df_at_def)

section \<open>Copy\<close>



































lemma getattr1_keep:
  assumes "table_ok h (tbl f u)" and "\<And>r d. df_at h r = Some d \<Longrightarrow> df_at h2 r = Some d"
  shows "getattr1 h2 f (Tbl u) = getattr1 h f (Tbl u)"
  using assms by (auto simp: getattr1_def table_ok_def split: option.splits)





section \<open>Loading\<close>



lemma table_name_inj: "table_name t = table_name u \<Longrightarrow> t = u"
  by (cases t; cases u) simp_all

lemma table_named_Some: "table_named ts s = Some t \<Longrightarrow> table_name t = s \<and> t \<in> set ts"
  by (induction ts) (auto split: if_splits)


lemma stem_suffix: "suffix name \<noteq> [] \<Longrightarrow> stem name @ suffix name = name"
  by (auto simp: stem_def suffix_def split: option.splits if_splits)

lemma read_tables_slot:
  assumes "read_tables lb cs es fd h = (Inr fd', h')"
    and "\<forall>(name, nd)\<in>set es. name = table_name t @ ''.txt'' \<longrightarrow> skipped lb nd"
  shows "fd' t = fd t"
  using assms
proof (induction es arbitrary: fd h)
  case Nil
  then show ?case by simp
next
  case (Cons e es)
  obtain name nd where e: "e = (name, nd)" by (cases e)
  from Cons.prems(2) have rest: "\<forall>(name, nd)\<in>set es. name = table_name t @ ''.txt'' \<longrightarrow> skipped lb nd"
    by auto
  show ?case
  proof (cases "\<exists>c df. nd = File c \<and> length c \<noteq> 0 \<and> suffix name = ''.txt''
             \<and> table_named (GTFS_TABLES cs) (stem name) \<noteq> None
             \<and> read_csv lb c = Inr df \<and> \<not> empty_df df")
    case True
    then obtain c df u where c: "nd = File c" "length c \<noteq> 0" "suffix name = ''.txt''"
      "table_named (GTFS_TABLES cs) (stem name) = Some u" "read_csv lb c = Inr df" "\<not> empty_df df"
      by auto
    from table_named_Some[OF c(4)] have u: "table_name u = stem name" by simp
    from stem_suffix[of name] c(3) u have nm: "name = table_name u @ ''.txt''" by simp
    have "u \<noteq> t"
    proof
      assume "u = t"
      with nm Cons.prems(2) e have "skipped lb nd" by auto
      with c show False by (simp add: skipped_def)
    qed
    from Cons.prems(1) c e
    have "read_tables lb cs es (fd(u := Some (length h))) (h @ [DataFrame (clean_column_names lb df)])
            = (Inr fd', h')"
      by (simp add: alloc_def)
    from Cons.IH[OF this rest] \<open>u \<noteq> t\<close> show ?thesis by simp
  next
    case False
    with Cons.prems(1) e have "read_tables lb cs es fd h = (Inr fd', h')"
      by (auto split: node.splits if_splits sum.splits prod.splits)
    from Cons.IH[OF this rest] show ?thesis .
  qed
qed


lemma read_path_Inr:
  assumes src: "fs w p = Some (Dir es) \<or> (\<exists>z. fs w p = Some (File z) \<and> unpack_archive lb z = Inr es)"
    and ld: "read_feed_from_path lb cs p du (w, h) = (Inr f, w', h')"
  shows "\<exists>fd h1. read_tables lb cs es (\<lambda>t. None) h = (Inr fd, h1) \<and> Feed cs du fd h1 = (Inr f, h')"
  using src ld
  by (auto simp: read_feed_from_path_def Let_def split: prod.splits sum.splits)

text \<open>
  Claim C6. When loading a bundle (a directory, or an archive that unpacks to these entries)
  returns a Feed, a table whose file \<open><table>.txt\<close> has zero size, or parses to a frame with
  zero rows, is \<open>None\<close> in that Feed.
\<close>

theorem load_collapses_empty:
  assumes src: "fs w p = Some (Dir es) \<or> (\<exists>z. fs w p = Some (File z) \<and> unpack_archive lb z = Inr es)"
    and dist: "distinct (map fst es)"
    and ent: "(table_name t @ ''.txt'', File c) \<in> set es"
    and emp: "c = [] \<or> (\<exists>df. read_csv lb c = Inr df \<and> df_rows df = [])"
    and ld: "read_feed_from_path lb cs p du (w, h) = (Inr f, w', h')"
  shows "tbl f t = None"
proof -
  from read_path_Inr[OF src ld] obtain fd h1 where
    rt: "read_tables lb cs es (\<lambda>t. None) h = (Inr fd, h1)" and fe: "Feed cs du fd h1 = (Inr f, h')"
    by blast
  have sk: "skipped lb (File c)" using emp by (auto simp: skipped_def empty_df_def)
  have "\<forall>(name, nd)\<in>set es. name = table_name t @ ''.txt'' \<longrightarrow> skipped lb nd"
  proof (clarify)
    fix nd assume "(table_name t @ ''.txt'', nd) \<in> set es"
    with ent dist have "nd = File c" by (meson eq_key_imp_eq_value)
    with sk show "skipped lb nd" by simp
  qed
  from read_tables_slot[OF rt this] have "fd t = None" by simp
  with Feed_Inr_gen[OF fe] show ?thesis by simp
qed

lemma load_example:
  "read_feed_from_path example_lib example_constants (Named ''feed'') ''km'' (bundle_world, [])
     = (Inr (blank\<lparr>dist_units := ''km''\<rparr>), bundle_world, [])"
  using Feed_example
  by (simp add: read_feed_from_path_def bundle_world_def empty_world_def suffix_def stem_def
        example_lib_def header_bytes_def routes_bytes_def header_only_def empty_df_def
        example_constants_def init_tables_def no_tables_def)

theorem load_collapses_empty_witness:
  "fs bundle_world (Named ''feed'') = Some (Dir [(''routes.txt'', File header_bytes)])
   \<and> distinct (map fst [(''routes.txt'', File header_bytes)])
   \<and> (table_name routes @ ''.txt'', File header_bytes) \<in> set [(''routes.txt'', File header_bytes)]
   \<and> read_csv example_lib header_bytes = Inr header_only \<and> df_rows header_only = []
   \<and> read_feed_from_path example_lib example_constants (Named ''feed'') ''km'' (bundle_world, [])
        = (Inr (blank\<lparr>dist_units := ''km''\<rparr>), bundle_world, [])
   \<and> tbl (blank\<lparr>dist_units := ''km''\<rparr>) routes = None"
proof -
  have a: "fs bundle_world (Named ''feed'') = Some (Dir [(''routes.txt'', File header_bytes)])"
    by (simp add: bundle_world_def)
  have b: "distinct (map fst [(''routes.txt'', File header_bytes)])" by simp
  have c: "(table_name routes @ ''.txt'', File header_bytes) \<in> set [(''routes.txt'', File header_bytes)]"
    by simp
  have d: "read_csv example_lib header_bytes = Inr header_only" "df_rows header_only = []"
    by (simp_all add: example_lib_def header_only_def)
  from d have e: "header_bytes = [] \<or> (\<exists>df. read_csv example_lib header_bytes = Inr df \<and> df_rows df = [])"
    by blast
  from load_collapses_empty[OF disjI1[OF a] b c e load_example] a b c d load_example
  show ?thesis by simp
qed

text \<open>
  Claim C7, at two failing inputs. Reading an archive whose \<open>routes.txt\<close> does not parse
  raises the parse error and leaves the temporary directory, with the unpacked file, in the
  file system. Writing to \<open>out.zip\<close> a Feed whose integer column \<open>route_type\<close> holds a text
  that \<open>int\<close> rejects raises \<open>ValueError\<close> and leaves the temporary directory as well. In
  both, the call to \<open>tmp_dir.cleanup()\<close> at the end of the function is not reached.
\<close>

theorem scratch_left_on_failure:
  "fs zip_world (Tmp 0) = None
   \<and> fst (read_feed_from_path example_lib example_constants (Named ''feed.zip'') ''km''
            (zip_world, []))
       = Inl (ParserError ''Error tokenizing data'')
   \<and> fs (fst (snd (read_feed_from_path example_lib example_constants (Named ''feed.zip'') ''km''
            (zip_world, [])))) (Tmp 0)
       = Some (Dir [(''routes.txt'', File ''a,b'')])
   \<and> fst (Feed_write example_lib example_constants
            (blank\<lparr>dist_units := ''km'', tbl := no_tables(routes := Some 0)\<rparr>) ''out.zip'' 6
            (empty_world, [DataFrame typed_routes_frame]))
       = Some (ValueError (''invalid literal for int() with base 10: '' @ repr_str ''bus''))
   \<and> fs (fst (snd (Feed_write example_lib example_constants
            (blank\<lparr>dist_units := ''km'', tbl := no_tables(routes := Some 0)\<rparr>) ''out.zip'' 6
            (empty_world, [DataFrame typed_routes_frame])))) (Tmp 0)
       = Some (Dir [])"
  by (simp add: read_feed_from_path_def zip_world_def empty_world_def example_lib_def
        example_constants_def init_tables_def suffix_def stem_def header_bytes_def
        routes_bytes_def Feed_write_def no_tables_def blank_def df_at_def alloc_def
        typed_routes_frame_def coerce_frame_def int_col_positions_def cell_at_def
        coerce_cell_def fillna_def astype_int_def repr_str_def mutate_def Let_def)






section \<open>Writing\<close>




























lemma mutate_fresh: "mutate (length h) d' (h @ [DataFrame d]) = h @ [DataFrame d']"
  by (simp add: mutate_def)

lemma write_tables_heap:
  "write_tables lb cs nd f np ts (w, h) = (e, w', h') \<Longrightarrow> \<exists>k. h' = h @ k"
proof (induction ts arbitrary: w h)
  case Nil
  then show ?case by simp
next
  case (Cons t ts)
  show ?case
  proof (cases "tbl f t")
    case None
    with Cons.prems have "write_tables lb cs nd f np ts (w, h) = (e, w', h')" by simp
    from Cons.IH[OF this] show ?thesis .
  next
    case (Some r)
    show ?thesis
    proof (cases "df_at h r")
      case None
      with Some Cons.prems show ?thesis by simp
    next
      case d: (Some d)
      obtain e1 d' where cf: "coerce_frame lb cs d = (e1, d')" by (cases "coerce_frame lb cs d")
      show ?thesis
      proof (cases "\<exists>es. e1 = None \<and> fs w np = Some (Dir es)")
        case True
        then obtain es where es: "e1 = None" "fs w np = Some (Dir es)" by blast
        with Some d cf Cons.prems obtain w1 where
          "write_tables lb cs nd f np ts (w1, h @ [DataFrame d']) = (e, w', h')"
          by (auto simp: alloc_def mutate_fresh)
        from Cons.IH[OF this] show ?thesis by auto
      next
        case False
        with Some d cf Cons.prems have "h' = h @ [DataFrame d']"
          by (auto simp: alloc_def mutate_fresh split: option.splits node.splits)
        then show ?thesis by blast
      qed
    qed
  qed
qed

lemma Feed_write_heap:
  assumes "Feed_write lb cs f path nd (w, h) = (e, w', h')"
  shows "\<exists>k. h' = h @ k"
proof (cases "suffix (base_name path) = ''.zip''")
  case True
  let ?w1 = "w\<lparr>fs := (fs w)(Tmp (next_tmp w) \<mapsto> Dir []), next_tmp := Suc (next_tmp w)\<rparr>"
  obtain e2 w2 h2 where
    wt: "write_tables lb cs nd f (Tmp (next_tmp w)) (remdups (GTFS_TABLES cs)) (?w1, h) = (e2, w2, h2)"
    by (cases "write_tables lb cs nd f (Tmp (next_tmp w)) (remdups (GTFS_TABLES cs)) (?w1, h)") auto
  with assms True have "h' = h2"
    by (auto simp: Feed_write_def Let_def split: option.splits node.splits)
  with write_tables_heap[OF wt] show ?thesis by simp
next
  case False
  with assms obtain w1 where
    "write_tables lb cs nd f (Named path) (remdups (GTFS_TABLES cs)) (w1, h) = (e, w', h')"
    by (auto simp: Feed_write_def Let_def)
  from write_tables_heap[OF this] show ?thesis .
qed

text \<open>
  Claim C10. \<open>write\<close> changes no frame object that existed before the call, whether it
  returns or raises: it works on copies. So every table attribute of the Feed has the same
  value after the call as before.
\<close>

theorem write_leaves_tables:
  assumes "Feed_write lb cs f path nd (w, h) = (e, w', h')"
  shows "(\<forall>r d. df_at h r = Some d \<longrightarrow> df_at h' r = Some d) \<and>
         (\<forall>t. table_ok h (tbl f t) \<longrightarrow> getattr1 h' f (Tbl t) = getattr1 h f (Tbl t))"
proof -
  from Feed_write_heap[OF assms] obtain k where k: "h' = h @ k" by blast
  then have keep: "\<And>r d. df_at h r = Some d \<Longrightarrow> df_at h' r = Some d"
    by (simp add: df_at_append_Some)
  then show ?thesis using getattr1_keep[of h f _ h'] by blast
qed

theorem write_leaves_tables_witness:
  "table_ok example_heap (tbl example_feed trips)
   \<and> df_at example_heap 0 = Some trips_frame
   \<and> df_at (snd (snd (Feed_write example_lib example_constants example_feed ''out'' 6
                        (empty_world, example_heap)))) 0 = Some trips_frame
   \<and> getattr1 (snd (snd (Feed_write example_lib example_constants example_feed ''out'' 6
                        (empty_world, example_heap)))) example_feed (Tbl trips)
       = PFrame trips_frame"
proof -
  have a: "table_ok example_heap (tbl example_feed trips)"
    and b: "df_at example_heap 0 = Some trips_frame"
    and c: "getattr1 example_heap example_feed (Tbl trips) = PFrame trips_frame"
    by (simp_all add: table_ok_def example_heap_def example_feed_def df_at_def getattr1_def)
  obtain e w' h' where r: "Feed_write example_lib example_constants example_feed ''out'' 6
                        (empty_world, example_heap) = (e, w', h')"
    by (cases "Feed_write example_lib example_constants example_feed ''out'' 6
                        (empty_world, example_heap)") auto
  from write_leaves_tables[OF r] a b c show ?thesis by (simp add: r)
qed

section \<open>Writing and loading again\<close>









lemma table_file_inj: "table_name t @ ''.txt'' = table_name u @ ''.txt'' \<Longrightarrow> t = u"
  by (simp add: table_name_inj)















end
